theory Spec2Isabelle
  imports Main "HOL-Library.Word" "HOL-Library.Monad_Syntax"
begin

section \<open>The combat header (game\_combat\_system.h)\<close>

text \<open>
  The header declares the classes of the combat system and gives no method body. The
  operations below are therefore written from the design document, sentence by sentence;
  each such definition says so. The fields and parameters keep the type the header
  declares: a C++ \<open>int\<close> is a 32-bit word read in two's complement (\<open>sint\<close>).
\<close>

type_synonym cint = "32 word"

datatype error = InsufficientResource | AbilityNotFound | InvalidArgument

subsection \<open>Health components\<close>

datatype health_variant = StandardHealth | ArmoredHealth

record HealthComponent =
  hvariant :: health_variant
  currentHealth :: cint
  maxHealth :: cint

text \<open>The invariant the design document's data model gives to a health component.\<close>

definition health_inv :: "HealthComponent \<Rightarrow> bool" where
  "health_inv h = (0 \<le> sint (currentHealth h) \<and> sint (currentHealth h) \<le> sint (maxHealth h))"

text \<open>
  Modelled from the spec: the constructor \<open>HealthComponent(int maxHp)\<close> has no body, and
  the design document says of a component only that currentHealth is at most maxHealth
  and both are at least 0. How full a pool of a given capacity starts is therefore the
  parameter \<open>initialPool\<close>, and a construction that would not satisfy the invariant has
  no result.
\<close>

definition newHealth :: "(cint \<Rightarrow> cint) \<Rightarrow> health_variant \<Rightarrow> cint \<Rightarrow> HealthComponent option" where
  "newHealth initialPool v maxHp =
     (if 0 \<le> sint (initialPool maxHp) \<and> sint (initialPool maxHp) \<le> sint maxHp
      then Some \<lparr>hvariant = v, currentHealth = initialPool maxHp, maxHealth = maxHp\<rparr>
      else None)"

text \<open>
  Modelled from the spec: subtracting an amount that is not negative from a pool,
  floored at 0.
\<close>

definition subtractFloored :: "cint \<Rightarrow> cint \<Rightarrow> cint" where
  "subtractFloored current amount = (if sint current \<le> sint amount then 0 else current - amount)"

text \<open>
  Modelled from the spec: adding an amount that is not negative to a pool, capped at
  the maximum.
\<close>

definition addCapped :: "cint \<Rightarrow> cint \<Rightarrow> cint \<Rightarrow> cint" where
  "addCapped maximum current amount =
     (if sint maximum - sint current \<le> sint amount then maximum else current + amount)"

text \<open>
  Modelled from the spec: \<open>takeDamage\<close> is declared in both subclasses without a body.
  A negative amount is rejected with InvalidArgument and changes nothing. StandardHealth
  subtracts the amount directly, floored at 0. ArmoredHealth applies a reduction
  function, which the document leaves open, before subtracting, floored at 0: the
  reduction is the parameter \<open>reduce\<close>, which sees the component and the amount. The
  contract binds every health component: currentHealth is never raised (a reduced amount
  below 0 subtracts nothing) and an amount of at least maxHealth drives currentHealth to
  exactly 0.
\<close>

definition takeDamage ::
  "(HealthComponent \<Rightarrow> cint \<Rightarrow> cint) \<Rightarrow> HealthComponent \<Rightarrow> cint \<Rightarrow> error option \<times> HealthComponent" where
  "takeDamage reduce h amount =
     (if sint amount < 0 then (Some InvalidArgument, h)
      else case hvariant h of
        StandardHealth \<Rightarrow>
          (None, h\<lparr>currentHealth := subtractFloored (currentHealth h) amount\<rparr>)
      | ArmoredHealth \<Rightarrow>
          if sint (maxHealth h) \<le> sint amount then (None, h\<lparr>currentHealth := 0\<rparr>)
          else if sint (reduce h amount) < 0 then (None, h)
          else (None, h\<lparr>currentHealth := subtractFloored (currentHealth h) (reduce h amount)\<rparr>))"

text \<open>
  Modelled from the spec: \<open>heal\<close> has no body; it raises currentHealth, capped at
  maxHealth. A negative amount is rejected with InvalidArgument and changes nothing.
\<close>

definition heal :: "HealthComponent \<Rightarrow> cint \<Rightarrow> error option \<times> HealthComponent" where
  "heal h amount =
     (if sint amount < 0 then (Some InvalidArgument, h)
      else (None, h\<lparr>currentHealth := addCapped (maxHealth h) (currentHealth h) amount\<rparr>))"

text \<open>Modelled from the spec: \<open>isAlive\<close> has no body; it is true iff currentHealth > 0.\<close>

definition isAlive :: "HealthComponent \<Rightarrow> bool" where
  "isAlive h = (0 < sint (currentHealth h))"

subsection \<open>Mana components\<close>

datatype mana_variant = ArcaneMana | RageEnergy

record ManaComponent =
  mvariant :: mana_variant
  currentMana :: cint
  maxMana :: cint

text \<open>The invariant the design document's data model gives to a resource pool.\<close>

definition mana_inv :: "ManaComponent \<Rightarrow> bool" where
  "mana_inv m = (0 \<le> sint (currentMana m) \<and> sint (currentMana m) \<le> sint (maxMana m))"

text \<open>
  Modelled from the spec: the constructor \<open>ManaComponent(int maxResource)\<close> has no body;
  as for health, the document gives only the invariant, the first content of the pool is
  the parameter \<open>initialPool\<close>, and a construction outside the invariant has no result.
\<close>

definition newMana :: "(cint \<Rightarrow> cint) \<Rightarrow> mana_variant \<Rightarrow> cint \<Rightarrow> ManaComponent option" where
  "newMana initialPool v maxResource =
     (if 0 \<le> sint (initialPool maxResource) \<and> sint (initialPool maxResource) \<le> sint maxResource
      then Some \<lparr>mvariant = v, currentMana = initialPool maxResource, maxMana = maxResource\<rparr>
      else None)"

text \<open>
  Modelled from the spec: \<open>consumeMana\<close> is declared in ArcaneMana and RageEnergy without a
  body. For both it succeeds (pool decremented by the amount, result true) only if the
  amount is at most currentMana; otherwise the state is unchanged and the result is false.
  A negative amount is rejected: the pool only ever moves downward, so nothing changes
  and the result is false.
\<close>

definition consumeMana :: "ManaComponent \<Rightarrow> cint \<Rightarrow> bool \<times> ManaComponent" where
  "consumeMana m amount =
     (if sint amount < 0 then (False, m)
      else if sint amount \<le> sint (currentMana m)
      then (True, m\<lparr>currentMana := currentMana m - amount\<rparr>)
      else (False, m))"

text \<open>
  Modelled from the spec: \<open>regenerateMana\<close> has no body; it raises the pool, capped at
  the maximum. A negative amount is rejected with InvalidArgument and changes nothing.
\<close>

definition regenerateMana :: "ManaComponent \<Rightarrow> cint \<Rightarrow> error option \<times> ManaComponent" where
  "regenerateMana m amount =
     (if sint amount < 0 then (Some InvalidArgument, m)
      else (None, m\<lparr>currentMana := addCapped (maxMana m) (currentMana m) amount\<rparr>))"

subsection \<open>Abilities and characters\<close>

datatype ability_kind =
    MeleeAttack (baseDamage: cint)
  | SpellCast (spellEffect: string)
  | Buff (effectDescription: string) (duration: cint)
  | Debuff (effectDescription: string) (duration: cint)

record Ability =
  aname :: string
  resourceCost :: cint
  cooldown :: cint
  kind :: ability_kind

record Character =
  cname :: string
  level :: cint
  health :: HealthComponent
  mana :: ManaComponent
  abilities :: "Ability list"

text \<open>
  \<open>Character&\<close> arguments are references into the set of live characters: a world is the
  list of characters and a reference is an index into it, so that a caster who is also a target
  is one object.
\<close>

type_synonym world = "Character list"

text \<open>
  The collaborators whose behaviour neither the header nor the design document fixes:
  the damage formula, target selection, the armour reduction, and what \<open>apply\<close> of a
  Buff or Debuff records on its target.
\<close>

record collaborators =
  calculateDamage :: "Ability \<Rightarrow> Character \<Rightarrow> Character \<Rightarrow> cint"
  selectTargets :: "world \<Rightarrow> nat \<Rightarrow> Ability \<Rightarrow> nat list"
  armorReduction :: "HealthComponent \<Rightarrow> cint \<Rightarrow> cint"
  applyEffect :: "Ability \<Rightarrow> Character \<Rightarrow> Character"

text \<open>
  Modelled from the spec: step 3 of an activation (\<open>activate\<close> has no body), for one
  resolved target: the magnitude comes from the DamageCalculator and is applied through
  the target's \<open>takeDamage\<close>, which leaves the target as it is when it rejects the
  magnitude.
\<close>

definition dealDamage :: "collaborators \<Rightarrow> Ability \<Rightarrow> nat \<Rightarrow> world \<Rightarrow> nat \<Rightarrow> world" where
  "dealDamage env a caster w t =
     w[t := (w ! t)\<lparr>health :=
        snd (takeDamage (armorReduction env) (health (w ! t))
               (calculateDamage env a (w ! caster) (w ! t)))\<rparr>]"

text \<open>
  Modelled from the spec: steps 2 to 4 of an activation (\<open>activate\<close> has no body in any
  subclass). MeleeAttack and SpellCast resolve their targets through TargetSelection and
  damage each of them (an empty result is a no-op); Buff and Debuff call \<open>apply\<close> on the
  target they were given.
\<close>

definition applyEffects :: "collaborators \<Rightarrow> Ability \<Rightarrow> nat \<Rightarrow> nat \<Rightarrow> world \<Rightarrow> world" where
  "applyEffects env a caster target w =
     (case kind a of
        MeleeAttack _ \<Rightarrow> foldl (dealDamage env a caster) w (selectTargets env w caster a)
      | SpellCast _ \<Rightarrow> foldl (dealDamage env a caster) w (selectTargets env w caster a)
      | Buff _ _ \<Rightarrow> w[target := applyEffect env a (w ! target)]
      | Debuff _ _ \<Rightarrow> w[target := applyEffect env a (w ! target)])"

text \<open>
  Modelled from the spec: \<open>Ability::activate\<close>. Step 1 asks the caster's pool for
  resourceCost through \<open>consumeMana\<close>; when that returns false the activation aborts with
  InsufficientResource and nothing further happens; otherwise the effects are applied to
  the world in which the cost has been paid.
\<close>

definition activate :: "collaborators \<Rightarrow> Ability \<Rightarrow> nat \<Rightarrow> nat \<Rightarrow> world \<Rightarrow> error option \<times> world" where
  "activate env a caster target w =
     (case consumeMana (mana (w ! caster)) (resourceCost a) of
        (False, _) \<Rightarrow> (Some InsufficientResource, w)
      | (True, m) \<Rightarrow>
          (None, applyEffects env a caster target (w[caster := (w ! caster)\<lparr>mana := m\<rparr>])))"

text \<open>
  Modelled from the spec: \<open>Character::findAbility\<close> has no body; it looks the name up among
  the owned abilities, in their order, by exact string equality.
\<close>

definition findAbility :: "Character \<Rightarrow> string \<Rightarrow> Ability option" where
  "findAbility c abilityName = find (\<lambda>a. aname a = abilityName) (abilities c)"

text \<open>
  Modelled from the spec: \<open>Character::useAbility\<close> has no body; an unknown name fails with
  AbilityNotFound and performs no effect, a known one delegates to the activation.
\<close>

definition useAbility :: "collaborators \<Rightarrow> nat \<Rightarrow> string \<Rightarrow> nat \<Rightarrow> world \<Rightarrow> error option \<times> world" where
  "useAbility env caster abilityName target w =
     (case findAbility (w ! caster) abilityName of
        None \<Rightarrow> (Some AbilityNotFound, w)
      | Some a \<Rightarrow> activate env a caster target w)"

section \<open>The inventory manager\<close>

subsection \<open>Items\<close>

text \<open>
  \<open>quantity\<close> is a C++ \<open>int\<close> (\<open>cint\<close>): a 32-bit word read in two's complement, whose
  addition and subtraction wrap, as they do on the usual targets (C++ itself leaves signed
  overflow undefined). \<open>price\<close> and \<open>total_money\<close> are \<open>float\<close>; the type and its
  operations are parameters (\<open>'f\<close>), so nothing is assumed about floating-point
  arithmetic. The selectors of the record take the names \<open>name\<close>, \<open>quantity\<close> and
  \<open>price\<close>, so the local variables of these names are written \<open>new_name\<close>,
  \<open>new_quantity\<close> and \<open>new_price\<close> below; \<open>this\<close> is the inventory object.
  \<open>list_items\<close>, which only prints, and \<open>main\<close>, the menu that calls these
  operations, are left out.
\<close>

record 'f Item =
  name :: string
  quantity :: cint
  price :: 'f

definition get_name :: "'f Item \<Rightarrow> string" where
  "get_name item = name item"

definition get_quantity :: "'f Item \<Rightarrow> cint" where
  "get_quantity item = quantity item"

definition set_quantity :: "'f Item \<Rightarrow> cint \<Rightarrow> 'f Item" where
  "set_quantity item new_quantity = item\<lparr>quantity := new_quantity\<rparr>"

definition get_price :: "'f Item \<Rightarrow> 'f" where
  "get_price item = price item"

definition is_match :: "'f Item \<Rightarrow> string \<Rightarrow> bool" where
  "is_match item other_name = (name item = other_name)"

record 'f Inventory =
  items :: "'f Item list"
  total_money :: 'f

subsection \<open>The console and the C++ runtime\<close>

text \<open>
  What the program writes to \<open>std::cout\<close>: one constructor for each fixed text, carrying
  the values inserted into it.
\<close>

datatype 'f message =
    EnterItemName
  | EnterQuantity
  | InvalidQuantity
  | EnterPrice
  | InvalidPrice
  | ItemExists string
  | NewItemAdded string
  | NothingToSell
  | EnterNameToSell
  | NotInInventory
  | EnterNumberToSell
  | ItemsSold 'f
  | QuantityReachedZero string
  | CannotSellMore cint

text \<open>
  \<open>std::cin\<close> is a value of an arbitrary type \<open>'s\<close> (the unread input together with the
  stream's error flags), and the library calls the program makes on it are parameters:
  an extraction returns \<open>None\<close> when it fails. So are the three operations on \<open>float\<close>.
\<close>

record ('s, 'f) runtime =
  extract_int :: "'s \<Rightarrow> cint option \<times> 's"
  extract_float :: "'s \<Rightarrow> 'f option \<times> 's"
  clear :: "'s \<Rightarrow> 's"
  ignore_line :: "'s \<Rightarrow> 's"
  getline :: "'s \<Rightarrow> string \<times> 's"
  float_negative :: "'f \<Rightarrow> bool"
  float_times_int :: "'f \<Rightarrow> cint \<Rightarrow> 'f"
  float_plus :: "'f \<Rightarrow> 'f \<Rightarrow> 'f"

record ('s, 'f) console =
  cin :: 's
  cout :: "'f message list"

definition print :: "'f message \<Rightarrow> ('s, 'f) console \<Rightarrow> ('s, 'f) console" where
  "print m c = c\<lparr>cout := cout c @ [m]\<rparr>"

text \<open>The body of both re-prompt loops: \<open>std::cin.clear()\<close>, then \<open>std::cin.ignore\<close> to the end of the line.\<close>

definition discard_line :: "('s, 'f) runtime \<Rightarrow> 's \<Rightarrow> 's" where
  "discard_line rt s = ignore_line rt (clear rt s)"

text \<open>
  \<open>while (!(std::cin >> quantity) || quantity <= 0) { ... }\<close>, the loop of \<open>add_item\<close>
  and, with \<open>input_quantity\<close>, of \<open>remove_item\<close>. It need not end (it spins at the end of
  the input): \<open>None\<close> is the run that never leaves the loop.
\<close>

partial_function (option) read_quantity ::
  "('s, 'f) runtime \<Rightarrow> ('s, 'f) console \<Rightarrow> (cint \<times> ('s, 'f) console) option" where
  "read_quantity rt c =
     (case extract_int rt (cin c) of
        (None, s) \<Rightarrow> read_quantity rt (print InvalidQuantity (c\<lparr>cin := discard_line rt s\<rparr>))
      | (Some new_quantity, s) \<Rightarrow>
          if sint new_quantity \<le> 0
          then read_quantity rt (print InvalidQuantity (c\<lparr>cin := discard_line rt s\<rparr>))
          else Some (new_quantity, c\<lparr>cin := s\<rparr>))"

text \<open>\<open>while (!(std::cin >> price) || price < 0) { ... }\<close>\<close>

partial_function (option) read_price ::
  "('s, 'f) runtime \<Rightarrow> ('s, 'f) console \<Rightarrow> ('f \<times> ('s, 'f) console) option" where
  "read_price rt c =
     (case extract_float rt (cin c) of
        (None, s) \<Rightarrow> read_price rt (print InvalidPrice (c\<lparr>cin := discard_line rt s\<rparr>))
      | (Some new_price, s) \<Rightarrow>
          if float_negative rt new_price
          then read_price rt (print InvalidPrice (c\<lparr>cin := discard_line rt s\<rparr>))
          else Some (new_price, c\<lparr>cin := s\<rparr>))"

subsection \<open>Inventory operations\<close>

text \<open>\<open>std::find_if\<close> over a vector: the position of the first match, the length for \<open>end()\<close>.\<close>

primrec find_if :: "('a \<Rightarrow> bool) \<Rightarrow> 'a list \<Rightarrow> nat" where
  "find_if P [] = 0"
| "find_if P (x # xs) = (if P x then 0 else Suc (find_if P xs))"

text \<open>\<open>vector::erase\<close> at a position.\<close>

definition erase :: "nat \<Rightarrow> 'a list \<Rightarrow> 'a list" where
  "erase i xs = take i xs @ drop (Suc i) xs"

text \<open>The first part of \<open>add_item\<close>: the name, the quantity and the price read from the console.\<close>

definition add_item_input ::
  "('s, 'f) runtime \<Rightarrow> ('s, 'f) console \<Rightarrow> (string \<times> cint \<times> 'f \<times> ('s, 'f) console) option" where
  "add_item_input rt c =
     (let c1 = print EnterItemName (c\<lparr>cin := ignore_line rt (cin c)\<rparr>);
          (new_name, s) = getline rt (cin c1);
          c2 = print EnterQuantity (c1\<lparr>cin := s\<rparr>)
      in do {
        (new_quantity, c3) \<leftarrow> read_quantity rt c2;
        (new_price, c4) \<leftarrow> read_price rt (print EnterPrice c3);
        Some (new_name, new_quantity, new_price, c4)
      })"

text \<open>The second part of \<open>add_item\<close>: merge into the first entry of that name, or append.\<close>

definition add_item_store ::
  "string \<Rightarrow> cint \<Rightarrow> 'f \<Rightarrow> ('s, 'f) console \<times> 'f Inventory \<Rightarrow> ('s, 'f) console \<times> 'f Inventory" where
  "add_item_store new_name new_quantity new_price = (\<lambda>(c, this).
     let it = find_if (\<lambda>item. is_match item new_name) (items this) in
     if it \<noteq> length (items this)
     then (print (ItemExists new_name) c,
           this\<lparr>items := (items this)[it :=
              set_quantity (items this ! it) (get_quantity (items this ! it) + new_quantity)]\<rparr>)
     else (print (NewItemAdded new_name) c,
           this\<lparr>items := items this @ [\<lparr>name = new_name, quantity = new_quantity, price = new_price\<rparr>]\<rparr>))"

definition add_item ::
  "('s, 'f) runtime \<Rightarrow> ('s, 'f) console \<times> 'f Inventory \<Rightarrow> (('s, 'f) console \<times> 'f Inventory) option" where
  "add_item rt = (\<lambda>(c, this). do {
     (new_name, new_quantity, new_price, c') \<leftarrow> add_item_input rt c;
     Some (add_item_store new_name new_quantity new_price (c', this))
   })"

text \<open>
  \<open>remove_item\<close> after its prompt loop, for the accepted \<open>input_quantity\<close>. \<open>item_it\<close> is the
  iterator as a position; the caller passes a valid one.
\<close>

definition remove_item_sell ::
  "('s, 'f) runtime \<Rightarrow> nat \<Rightarrow> cint \<Rightarrow> ('s, 'f) console \<times> 'f Inventory \<Rightarrow> ('s, 'f) console \<times> 'f Inventory" where
  "remove_item_sell rt item_it input_quantity = (\<lambda>(c, this).
     let item = items this ! item_it;
         current_quantity = get_quantity item
     in if sint input_quantity \<le> sint current_quantity
        then
          let item_price = get_price item;
              money_earned = float_times_int rt item_price input_quantity;
              item' = set_quantity item (current_quantity - input_quantity);
              c' = print (ItemsSold money_earned) c;
              money = float_plus rt (total_money this) money_earned
          in if get_quantity item' = 0
             then (print (QuantityReachedZero (get_name item')) c',
                   \<lparr>items = erase item_it (items this), total_money = money\<rparr>)
             else (c', \<lparr>items = (items this)[item_it := item'], total_money = money\<rparr>)
        else (print (CannotSellMore current_quantity) c, this))"

definition remove_item ::
  "('s, 'f) runtime \<Rightarrow> nat \<Rightarrow> ('s, 'f) console \<times> 'f Inventory \<Rightarrow> (('s, 'f) console \<times> 'f Inventory) option" where
  "remove_item rt item_it = (\<lambda>(c, this). do {
     (input_quantity, c') \<leftarrow> read_quantity rt (print EnterNumberToSell c);
     Some (remove_item_sell rt item_it input_quantity (c', this))
   })"

definition sell_item ::
  "('s, 'f) runtime \<Rightarrow> ('s, 'f) console \<times> 'f Inventory \<Rightarrow> (('s, 'f) console \<times> 'f Inventory) option" where
  "sell_item rt = (\<lambda>(c, this).
     if items this = [] then Some (print NothingToSell c, this)
     else
       let c1 = print EnterNameToSell (c\<lparr>cin := ignore_line rt (cin c)\<rparr>);
           (item_to_check, s) = getline rt (cin c1);
           c2 = c1\<lparr>cin := s\<rparr>;
           it = find_if (\<lambda>item. is_match item item_to_check) (items this)
       in if it \<noteq> length (items this) then remove_item rt it (c2, this)
          else Some (print NotInInventory c2, this))"

section \<open>Concrete scenarios\<close>

text \<open>
  The scenarios of the design document as data, for running the operations: character B
  (ArcaneMana, 20 of 50) casts at character A (StandardHealth, 100 of 100); the
  collaborators are one possible choice (melee damage is the base damage, the only legal
  target is character A, armour lets half of the damage through).
\<close>

definition halfDamage :: "HealthComponent \<Rightarrow> cint \<Rightarrow> cint" where
  "halfDamage h amount = amount div 2"

definition frostbolt :: Ability where
  "frostbolt = \<lparr>aname = ''Frostbolt'', resourceCost = 30, cooldown = 0, kind = SpellCast ''frost''\<rparr>"

definition slash :: Ability where
  "slash = \<lparr>aname = ''Slash'', resourceCost = 5, cooldown = 0, kind = MeleeAttack 150\<rparr>"

definition characterA :: Character where
  "characterA = \<lparr>cname = ''A'', level = 1,
     health = \<lparr>hvariant = StandardHealth, currentHealth = 100, maxHealth = 100\<rparr>,
     mana = \<lparr>mvariant = RageEnergy, currentMana = 10, maxMana = 10\<rparr>, abilities = []\<rparr>"

definition characterB :: Character where
  "characterB = \<lparr>cname = ''B'', level = 1,
     health = \<lparr>hvariant = ArmoredHealth, currentHealth = 80, maxHealth = 80\<rparr>,
     mana = \<lparr>mvariant = ArcaneMana, currentMana = 20, maxMana = 50\<rparr>,
     abilities = [frostbolt, slash]\<rparr>"

definition scenario :: world where
  "scenario = [characterB, characterA]"

definition scenario_env :: collaborators where
  "scenario_env =
     \<lparr>calculateDamage = (\<lambda>a caster target. case kind a of MeleeAttack d \<Rightarrow> d | _ \<Rightarrow> 0),
      selectTargets = (\<lambda>w caster a. [1]),
      armorReduction = halfDamage,
      applyEffect = (\<lambda>a target. target)\<rparr>"

text \<open>
  A runtime over scripted input, for running the inventory operations: the input is a
  list of lines, each a list of tokens; an extraction skips line ends and fails on text;
  prices are whole numbers.
\<close>

datatype token = Num cint | Txt string

fun scripted_extract :: "token list list \<Rightarrow> cint option \<times> token list list" where
  "scripted_extract [] = (None, [])"
| "scripted_extract ([] # ls) = scripted_extract ls"
| "scripted_extract ((Num n # l) # ls) = (Some n, l # ls)"
| "scripted_extract ((Txt t # l) # ls) = (None, (Txt t # l) # ls)"

fun scripted_getline :: "token list list \<Rightarrow> string \<times> token list list" where
  "scripted_getline [] = ([], [])"
| "scripted_getline ([Txt t] # ls) = (t, ls)"
| "scripted_getline (l # ls) = ([], ls)"

definition scripted :: "(token list list, int) runtime" where
  "scripted =
     \<lparr>extract_int = scripted_extract,
      extract_float = (\<lambda>s. case scripted_extract s of (r, s') \<Rightarrow> (map_option sint r, s')),
      clear = (\<lambda>s. s),
      ignore_line = (\<lambda>s. drop 1 s),
      getline = scripted_getline,
      float_negative = (\<lambda>p. p < 0),
      float_times_int = (\<lambda>p n. p * sint n),
      float_plus = (\<lambda>a b. a + b)\<rparr>"

text \<open>A stocked inventory, and a console whose input is the given lines and whose output is still empty.\<close>

definition stock :: "int Inventory" where
  "stock = \<lparr>items = [\<lparr>name = ''apple'', quantity = 10, price = 3\<rparr>,
                     \<lparr>name = ''pear'', quantity = 4, price = 5\<rparr>],
            total_money = 0\<rparr>"

definition keyboard :: "token list list \<Rightarrow> (token list list, int) console" where
  "keyboard ls = \<lparr>cin = ls, cout = []\<rparr>"

section \<open>Arithmetic on 32-bit integers\<close>

lemma sint_add_exact:
  fixes a b :: cint
  assumes "- (2 ^ 31) \<le> sint a + sint b" "sint a + sint b < 2 ^ 31"
  shows "sint (a + b) = sint a + sint b"
  using assms by (simp add: sint_word_ariths signed_take_bit_int_eq_self)

lemma sint_sub_exact:
  fixes a b :: cint
  assumes "- (2 ^ 31) \<le> sint a - sint b" "sint a - sint b < 2 ^ 31"
  shows "sint (a - b) = sint a - sint b"
  using assms by (simp add: sint_word_ariths signed_take_bit_int_eq_self)

lemma sint_cint_bounds:
  fixes a :: cint
  shows "- (2 ^ 31) \<le> sint a" "sint a < 2 ^ 31"
  using sint_ge [of a] sint_lt [of a] by simp_all

lemma sint_subtractFloored:
  assumes "0 \<le> sint amount"
  shows "sint (subtractFloored current amount) = max 0 (sint current - sint amount)"
proof (cases "sint current \<le> sint amount")
  case True
  then show ?thesis by (simp add: subtractFloored_def)
next
  case False
  with assms sint_cint_bounds [of current]
  have "sint (current - amount) = sint current - sint amount"
    by (intro sint_sub_exact) simp_all
  with False show ?thesis by (simp add: subtractFloored_def)
qed

lemma sint_addCapped:
  assumes "0 \<le> sint amount" "0 \<le> sint current" "sint current \<le> sint maximum"
  shows "sint (addCapped maximum current amount) = min (sint maximum) (sint current + sint amount)"
proof (cases "sint maximum - sint current \<le> sint amount")
  case True
  then show ?thesis by (simp add: addCapped_def)
next
  case False
  with assms sint_cint_bounds [of maximum]
  have "sint (current + amount) = sint current + sint amount"
    by (intro sint_add_exact) simp_all
  with False show ?thesis by (simp add: addCapped_def)
qed

text \<open>No \<open>int\<close> holds 0 - (-2147483648).\<close>

lemma int_cannot_hold:
  "sint (r :: cint) \<noteq> sint (0 :: cint) - sint (- 2147483648 :: cint)"
  using sint_cint_bounds [of r] by simp

section \<open>Properties of the combat operations\<close>

text \<open>
  C1, as stated, fails on the types the header declares: currentMana and the amount are
  \<open>int\<close>, and at currentMana 0 and amount -2147483648, which is at most currentMana,
  the claim asks for a pool of 2147483648 afterwards, which no \<open>int\<close> holds, whatever
  the body of \<open>consumeMana\<close> does.
\<close>

theorem consumeMana_int_counterexample:
  "sint (- 2147483648 :: cint)
     \<le> sint (currentMana \<lparr>mvariant = ArcaneMana, currentMana = 0, maxMana = 50\<rparr>) \<and>
   sint (currentMana (snd (consumeMana \<lparr>mvariant = ArcaneMana, currentMana = 0, maxMana = 50\<rparr>
                             (- 2147483648))))
     \<noteq> sint (currentMana \<lparr>mvariant = ArcaneMana, currentMana = 0, maxMana = 50\<rparr>)
         - sint (- 2147483648 :: cint)"
  using int_cannot_hold
    [of "currentMana (snd (consumeMana \<lparr>mvariant = ArcaneMana, currentMana = 0, maxMana = 50\<rparr>
                             (- 2147483648)))"]
  by simp

text \<open>
  C1, amended. For every ManaComponent (ArcaneMana or RageEnergy) and every amount that
  is not negative, \<open>consumeMana\<close> returns true and decrements currentMana by exactly
  the amount when the amount is at most currentMana, and returns false leaving the
  component unchanged when the amount exceeds currentMana.
\<close>

theorem consumeMana_contract:
  "0 \<le> sint amount \<longrightarrow>
     (sint amount \<le> sint (currentMana m) \<longrightarrow>
        consumeMana m amount = (True, m\<lparr>currentMana := currentMana m - amount\<rparr>) \<and>
        sint (currentMana m - amount) = sint (currentMana m) - sint amount) \<and>
     (sint (currentMana m) < sint amount \<longrightarrow> consumeMana m amount = (False, m))"
proof (intro impI conjI)
  assume "0 \<le> sint amount" "sint amount \<le> sint (currentMana m)"
  then show "consumeMana m amount = (True, m\<lparr>currentMana := currentMana m - amount\<rparr>)"
    by (simp add: consumeMana_def)
  from \<open>0 \<le> sint amount\<close> \<open>sint amount \<le> sint (currentMana m)\<close> sint_cint_bounds [of "currentMana m"]
  show "sint (currentMana m - amount) = sint (currentMana m) - sint amount"
    by (intro sint_sub_exact) simp_all
next
  assume "0 \<le> sint amount" "sint (currentMana m) < sint amount"
  then show "consumeMana m amount = (False, m)"
    by (simp add: consumeMana_def)
qed

theorem consumeMana_contract_witness:
  "consumeMana \<lparr>mvariant = RageEnergy, currentMana = 20, maxMana = 50\<rparr> 5
     = (True, \<lparr>mvariant = RageEnergy, currentMana = 15, maxMana = 50\<rparr>) \<and>
   sint (15 :: cint) = sint (20 :: cint) - sint (5 :: cint) \<and>
   consumeMana \<lparr>mvariant = ArcaneMana, currentMana = 20, maxMana = 50\<rparr> 30
     = (False, \<lparr>mvariant = ArcaneMana, currentMana = 20, maxMana = 50\<rparr>)"
  using consumeMana_contract [of 5 "\<lparr>mvariant = RageEnergy, currentMana = 20, maxMana = 50\<rparr>"]
    consumeMana_contract [of 30 "\<lparr>mvariant = ArcaneMana, currentMana = 20, maxMana = 50\<rparr>"]
  by simp







lemma takeDamage_current:
  assumes "health_inv h"
  shows "(sint (maxHealth h) \<le> sint amount \<longrightarrow> currentHealth (snd (takeDamage reduce h amount)) = 0) \<and>
         0 \<le> sint (currentHealth (snd (takeDamage reduce h amount))) \<and>
         sint (currentHealth (snd (takeDamage reduce h amount))) \<le> sint (currentHealth h)"
proof (cases "sint amount < 0")
  case True
  with assms show ?thesis by (simp add: takeDamage_def health_inv_def)
next
  case nonneg: False
  show ?thesis
  proof (cases "hvariant h")
    case StandardHealth
    with nonneg assms show ?thesis
      by (auto simp: takeDamage_def health_inv_def sint_subtractFloored)
        (simp add: subtractFloored_def)
  next
    case ArmoredHealth
    with nonneg assms show ?thesis
      by (auto simp: takeDamage_def health_inv_def sint_subtractFloored)
  qed
qed

text \<open>
  C3. For every health component of the data model (0 \<open>\<le>\<close> currentHealth \<open>\<le>\<close>
  maxHealth), StandardHealth or ArmoredHealth with whatever reduction, every amount of at
  least maxHealth sets currentHealth to exactly 0, and for every amount \<open>takeDamage\<close>
  neither raises currentHealth nor makes it negative.
\<close>

theorem takeDamage_floor:
  "health_inv h \<longrightarrow>
     (sint (maxHealth h) \<le> sint amount \<longrightarrow> currentHealth (snd (takeDamage reduce h amount)) = 0) \<and>
     sint (currentHealth (snd (takeDamage reduce h amount))) \<le> sint (currentHealth h) \<and>
     0 \<le> sint (currentHealth (snd (takeDamage reduce h amount)))"
  using takeDamage_current [of h amount reduce] by simp

theorem takeDamage_floor_witness:
  "health_inv \<lparr>hvariant = StandardHealth, currentHealth = 100, maxHealth = 100\<rparr> \<and>
   takeDamage halfDamage \<lparr>hvariant = StandardHealth, currentHealth = 100, maxHealth = 100\<rparr> 150
     = (None, \<lparr>hvariant = StandardHealth, currentHealth = 0, maxHealth = 100\<rparr>) \<and>
   \<not> isAlive (snd (takeDamage halfDamage
                      \<lparr>hvariant = StandardHealth, currentHealth = 100, maxHealth = 100\<rparr> 150)) \<and>
   health_inv \<lparr>hvariant = ArmoredHealth, currentHealth = 100, maxHealth = 100\<rparr> \<and>
   currentHealth (snd (takeDamage halfDamage
                         \<lparr>hvariant = ArmoredHealth, currentHealth = 100, maxHealth = 100\<rparr> 100)) = 0 \<and>
   takeDamage halfDamage \<lparr>hvariant = ArmoredHealth, currentHealth = 100, maxHealth = 100\<rparr> 30
     = (None, \<lparr>hvariant = ArmoredHealth, currentHealth = 85, maxHealth = 100\<rparr>) \<and>
   takeDamage halfDamage \<lparr>hvariant = ArmoredHealth, currentHealth = 100, maxHealth = 100\<rparr> (- 10)
     = (Some InvalidArgument, \<lparr>hvariant = ArmoredHealth, currentHealth = 100, maxHealth = 100\<rparr>)"
  using takeDamage_floor
      [of "\<lparr>hvariant = StandardHealth, currentHealth = 100, maxHealth = 100\<rparr>" 150 halfDamage]
    takeDamage_floor
      [of "\<lparr>hvariant = ArmoredHealth, currentHealth = 100, maxHealth = 100\<rparr>" 100 halfDamage]
  by (simp add: health_inv_def takeDamage_def subtractFloored_def halfDamage_def isAlive_def)

lemma health_inv_heal:
  assumes "health_inv h"
  shows "health_inv (snd (heal h amount))"
proof (cases "sint amount < 0")
  case True
  with assms show ?thesis by (simp add: heal_def)
next
  case False
  with assms sint_addCapped [of amount "currentHealth h" "maxHealth h"]
  show ?thesis by (simp add: heal_def health_inv_def)
qed

lemma mana_inv_regenerateMana:
  assumes "mana_inv m"
  shows "mana_inv (snd (regenerateMana m amount))"
proof (cases "sint amount < 0")
  case True
  with assms show ?thesis by (simp add: regenerateMana_def)
next
  case False
  with assms sint_addCapped [of amount "currentMana m" "maxMana m"]
  show ?thesis by (simp add: regenerateMana_def mana_inv_def)
qed

lemma mana_inv_consumeMana:
  assumes "mana_inv m"
  shows "mana_inv (snd (consumeMana m amount))"
proof (cases "0 \<le> sint amount \<and> sint amount \<le> sint (currentMana m)")
  case True
  with sint_cint_bounds [of "currentMana m"]
  have "sint (currentMana m - amount) = sint (currentMana m) - sint amount"
    by (intro sint_sub_exact) simp_all
  with True assms show ?thesis by (simp add: consumeMana_def mana_inv_def)
next
  case False
  with assms show ?thesis by (auto simp: consumeMana_def)
qed

lemma health_inv_takeDamage:
  assumes "health_inv h"
  shows "health_inv (snd (takeDamage reduce h amount))"
proof -
  have "maxHealth (snd (takeDamage reduce h amount)) = maxHealth h"
    by (simp add: takeDamage_def split: health_variant.split)
  with takeDamage_current [OF assms, of amount reduce] assms show ?thesis
    by (simp add: health_inv_def)
qed

text \<open>
  C4. A HealthComponent or ManaComponent that has been constructed satisfies
  0 \<open>\<le>\<close> current \<open>\<le>\<close> max (and every capacity whose first content lies within these
  bounds can be constructed); \<open>takeDamage\<close>, \<open>heal\<close>, \<open>consumeMana\<close> and
  \<open>regenerateMana\<close> preserve the invariant for every amount; \<open>heal\<close> clamps at
  maxHealth and \<open>regenerateMana\<close> at maxMana; no operation changes a maximum.
\<close>

theorem pools_invariant:
  "(newHealth initialPool hv capacity = Some h0 \<longrightarrow> health_inv h0) \<and>
   (newMana initialPool mv capacity = Some m0 \<longrightarrow> mana_inv m0) \<and>
   (0 \<le> sint (initialPool capacity) \<and> sint (initialPool capacity) \<le> sint capacity \<longrightarrow>
      newHealth initialPool hv capacity \<noteq> None \<and> newMana initialPool mv capacity \<noteq> None) \<and>
   (health_inv h \<longrightarrow>
      health_inv (snd (takeDamage reduce h amount)) \<and> health_inv (snd (heal h amount))) \<and>
   (mana_inv m \<longrightarrow>
      mana_inv (snd (consumeMana m amount)) \<and> mana_inv (snd (regenerateMana m amount))) \<and>
   (health_inv h \<and> 0 \<le> sint amount \<longrightarrow>
      sint (currentHealth (snd (heal h amount)))
        = min (sint (maxHealth h)) (sint (currentHealth h) + sint amount)) \<and>
   (mana_inv m \<and> 0 \<le> sint amount \<longrightarrow>
      sint (currentMana (snd (regenerateMana m amount)))
        = min (sint (maxMana m)) (sint (currentMana m) + sint amount)) \<and>
   maxHealth (snd (takeDamage reduce h amount)) = maxHealth h \<and>
   maxHealth (snd (heal h amount)) = maxHealth h \<and>
   maxMana (snd (consumeMana m amount)) = maxMana m \<and>
   maxMana (snd (regenerateMana m amount)) = maxMana m"
proof (intro conjI impI)
  assume "newHealth initialPool hv capacity = Some h0"
  then show "health_inv h0"
    by (auto simp: newHealth_def health_inv_def split: if_splits)
next
  assume "newMana initialPool mv capacity = Some m0"
  then show "mana_inv m0"
    by (auto simp: newMana_def mana_inv_def split: if_splits)
next
  assume "0 \<le> sint (initialPool capacity) \<and> sint (initialPool capacity) \<le> sint capacity"
  then show "newHealth initialPool hv capacity \<noteq> None" "newMana initialPool mv capacity \<noteq> None"
    by (simp_all add: newHealth_def newMana_def)
next
  assume "health_inv h"
  then show "health_inv (snd (takeDamage reduce h amount))" "health_inv (snd (heal h amount))"
    by (rule health_inv_takeDamage, rule health_inv_heal)
next
  assume "mana_inv m"
  then show "mana_inv (snd (consumeMana m amount))" "mana_inv (snd (regenerateMana m amount))"
    by (rule mana_inv_consumeMana, rule mana_inv_regenerateMana)
next
  assume "health_inv h \<and> 0 \<le> sint amount"
  then show "sint (currentHealth (snd (heal h amount)))
      = min (sint (maxHealth h)) (sint (currentHealth h) + sint amount)"
    using sint_addCapped [of amount "currentHealth h" "maxHealth h"]
    by (simp add: heal_def health_inv_def)
next
  assume "mana_inv m \<and> 0 \<le> sint amount"
  then show "sint (currentMana (snd (regenerateMana m amount)))
      = min (sint (maxMana m)) (sint (currentMana m) + sint amount)"
    using sint_addCapped [of amount "currentMana m" "maxMana m"]
    by (simp add: regenerateMana_def mana_inv_def)
next
  show "maxHealth (snd (takeDamage reduce h amount)) = maxHealth h"
    by (simp add: takeDamage_def split: health_variant.split)
  show "maxHealth (snd (heal h amount)) = maxHealth h"
    by (simp add: heal_def)
  show "maxMana (snd (consumeMana m amount)) = maxMana m"
    by (simp add: consumeMana_def)
  show "maxMana (snd (regenerateMana m amount)) = maxMana m"
    by (simp add: regenerateMana_def)
qed

theorem pools_invariant_witness:
  "newHealth id ArmoredHealth 100 = Some \<lparr>hvariant = ArmoredHealth, currentHealth = 100, maxHealth = 100\<rparr> \<and>
   health_inv \<lparr>hvariant = ArmoredHealth, currentHealth = 100, maxHealth = 100\<rparr> \<and>
   newMana id RageEnergy 100 = Some \<lparr>mvariant = RageEnergy, currentMana = 100, maxMana = 100\<rparr> \<and>
   mana_inv \<lparr>mvariant = RageEnergy, currentMana = 100, maxMana = 100\<rparr> \<and>
   health_inv (snd (takeDamage halfDamage
                      \<lparr>hvariant = ArmoredHealth, currentHealth = 100, maxHealth = 100\<rparr> (- 7))) \<and>
   health_inv (snd (takeDamage halfDamage
                      \<lparr>hvariant = ArmoredHealth, currentHealth = 100, maxHealth = 100\<rparr> 40)) \<and>
   health_inv (snd (heal \<lparr>hvariant = ArmoredHealth, currentHealth = 100, maxHealth = 100\<rparr> 40)) \<and>
   sint (currentHealth (snd (heal \<lparr>hvariant = ArmoredHealth, currentHealth = 100, maxHealth = 100\<rparr> 40)))
     = 100 \<and>
   mana_inv (snd (consumeMana \<lparr>mvariant = RageEnergy, currentMana = 100, maxMana = 100\<rparr> (- 7))) \<and>
   mana_inv (snd (consumeMana \<lparr>mvariant = RageEnergy, currentMana = 100, maxMana = 100\<rparr> 40)) \<and>
   mana_inv (snd (regenerateMana \<lparr>mvariant = RageEnergy, currentMana = 100, maxMana = 100\<rparr> 40)) \<and>
   sint (currentMana (snd (regenerateMana \<lparr>mvariant = RageEnergy, currentMana = 100, maxMana = 100\<rparr> 40)))
     = 100"
  using pools_invariant
      [where initialPool = id and hv = ArmoredHealth and mv = RageEnergy and capacity = 100
        and h0 = "\<lparr>hvariant = ArmoredHealth, currentHealth = 100, maxHealth = 100\<rparr>"
        and m0 = "\<lparr>mvariant = RageEnergy, currentMana = 100, maxMana = 100\<rparr>"
        and h = "\<lparr>hvariant = ArmoredHealth, currentHealth = 100, maxHealth = 100\<rparr>"
        and m = "\<lparr>mvariant = RageEnergy, currentMana = 100, maxMana = 100\<rparr>"
        and reduce = halfDamage and amount = "- 7"]
    pools_invariant
      [where initialPool = id and hv = ArmoredHealth and mv = RageEnergy and capacity = 100
        and h0 = "\<lparr>hvariant = ArmoredHealth, currentHealth = 100, maxHealth = 100\<rparr>"
        and m0 = "\<lparr>mvariant = RageEnergy, currentMana = 100, maxMana = 100\<rparr>"
        and h = "\<lparr>hvariant = ArmoredHealth, currentHealth = 100, maxHealth = 100\<rparr>"
        and m = "\<lparr>mvariant = RageEnergy, currentMana = 100, maxMana = 100\<rparr>"
        and reduce = halfDamage and amount = 40]
  by (simp add: newHealth_def newMana_def)

lemma findAbility_None_iff:
  "findAbility c n = None \<longleftrightarrow> (\<forall>a\<in>set (abilities c). aname a \<noteq> n)"
  by (auto simp: findAbility_def find_None_iff)

lemma findAbility_Some:
  "findAbility c n = Some a \<Longrightarrow> a \<in> set (abilities c) \<and> aname a = n"
  by (auto simp: findAbility_def find_Some_iff)

text \<open>
  C5. When no owned ability of the caster has exactly the given name, \<open>useAbility\<close>
  reports AbilityNotFound and leaves the world (caster and target) unchanged; when some
  owned ability has that name, \<open>useAbility\<close> is the activation of the ability found
  under it.
\<close>

theorem useAbility_lookup:
  "((\<forall>a\<in>set (abilities (w ! caster)). aname a \<noteq> abilityName) \<longrightarrow>
      useAbility env caster abilityName target w = (Some AbilityNotFound, w)) \<and>
   ((\<exists>a\<in>set (abilities (w ! caster)). aname a = abilityName) \<longrightarrow>
      (\<exists>a. findAbility (w ! caster) abilityName = Some a \<and> a \<in> set (abilities (w ! caster)) \<and>
           aname a = abilityName \<and>
           useAbility env caster abilityName target w = activate env a caster target w))"
proof (intro conjI impI)
  assume "\<forall>a\<in>set (abilities (w ! caster)). aname a \<noteq> abilityName"
  then have "findAbility (w ! caster) abilityName = None"
    by (simp add: findAbility_None_iff)
  then show "useAbility env caster abilityName target w = (Some AbilityNotFound, w)"
    by (simp add: useAbility_def)
next
  assume "\<exists>a\<in>set (abilities (w ! caster)). aname a = abilityName"
  then have "findAbility (w ! caster) abilityName \<noteq> None"
    by (simp add: findAbility_None_iff)
  then obtain b where b: "findAbility (w ! caster) abilityName = Some b"
    by auto
  with findAbility_Some [OF b] show "\<exists>a. findAbility (w ! caster) abilityName = Some a \<and>
      a \<in> set (abilities (w ! caster)) \<and> aname a = abilityName \<and>
      useAbility env caster abilityName target w = activate env a caster target w"
    by (simp add: useAbility_def)
qed

lemma characterB_abilities: "abilities (scenario ! 0) = [frostbolt, slash]"
  by (simp add: scenario_def characterB_def)

theorem useAbility_lookup_witness:
  "map aname (abilities (scenario ! 0)) = [''Frostbolt'', ''Slash''] \<and>
   useAbility scenario_env 0 ''Fireball'' 1 scenario = (Some AbilityNotFound, scenario) \<and>
   useAbility scenario_env 0 ''Slash'' 1 scenario = activate scenario_env slash 0 1 scenario"
  using useAbility_lookup [of scenario 0 "''Fireball''" scenario_env 1]
    useAbility_lookup [of scenario 0 "''Slash''" scenario_env 1]
  by (simp add: characterB_abilities findAbility_def frostbolt_def slash_def)

section \<open>Properties of the inventory operations\<close>

subsection \<open>Searching and erasing\<close>

lemma find_if_le: "find_if P xs \<le> length xs"
  by (induction xs) auto

lemma find_if_less_iff: "find_if P xs < length xs \<longleftrightarrow> (\<exists>x\<in>set xs. P x)"
  by (induction xs) auto

lemma find_if_end_iff: "find_if P xs = length xs \<longleftrightarrow> (\<forall>x\<in>set xs. \<not> P x)"
  using find_if_less_iff [of P xs] find_if_le [of P xs] by auto

lemma find_if_hit: "find_if P xs < length xs \<Longrightarrow> P (xs ! find_if P xs)"
  by (induction xs) auto

lemma find_if_first: "j < find_if P xs \<Longrightarrow> \<not> P (xs ! j)"
proof (induction xs arbitrary: j)
  case Nil
  then show ?case by simp
next
  case (Cons x xs)
  then show ?case by (cases j) (auto split: if_splits)
qed

lemma length_erase: "i < length xs \<Longrightarrow> length (erase i xs) = length xs - 1"
  by (simp add: erase_def)

lemma erase_nth_before: "j < i \<Longrightarrow> i < length xs \<Longrightarrow> erase i xs ! j = xs ! j"
  by (simp add: erase_def nth_append)

lemma erase_nth_after:
  "i \<le> j \<Longrightarrow> Suc j < length xs \<Longrightarrow> erase i xs ! j = xs ! Suc j"
  by (simp add: erase_def nth_append min_def)

lemma erase_distinct:
  assumes "distinct (map f xs)" "i < length xs"
  shows "f (xs ! i) \<notin> f ` set (erase i xs)"
proof -
  have "xs = take i xs @ xs ! i # drop (Suc i) xs"
    using assms(2) by (rule id_take_nth_drop)
  then have "distinct (map f (take i xs) @ f (xs ! i) # map f (drop (Suc i) xs))"
    using assms(1) by (metis list.simps(9) map_append)
  then show ?thesis
    by (auto simp: erase_def)
qed

subsection \<open>The prompt loops\<close>

lemma read_quantity_result:
  "read_quantity rt c = Some r \<Longrightarrow> 0 < sint (fst r)"
  by (rule read_quantity.raw_induct [where P = "\<lambda>_ _ r. 0 < sint (fst r)" and rt = rt and c = c])
    (auto split: prod.splits option.splits if_splits)

lemma read_quantity_positive:
  "read_quantity rt c = Some (q, c') \<Longrightarrow> 0 < sint q"
  using read_quantity_result [of rt c "(q, c')"] by simp

lemma read_price_result:
  "read_price rt c = Some r \<Longrightarrow> \<not> float_negative rt (fst r)"
  by (rule read_price.raw_induct [where P = "\<lambda>rt _ r. \<not> float_negative rt (fst r)" and c = c])
    (auto split: prod.splits option.splits if_splits)

lemma read_price_not_negative:
  "read_price rt c = Some (p, c') \<Longrightarrow> \<not> float_negative rt p"
  using read_price_result [of rt c "(p, c')"] by simp

lemma add_item_input_valid:
  assumes "add_item_input rt c = Some (n, q, p, c')"
  shows "0 < sint q \<and> \<not> float_negative rt p"
proof -
  from assms obtain c2 c3 where
    q: "read_quantity rt c2 = Some (q, c3)" and
    p: "read_price rt (print EnterPrice c3) = Some (p, c')"
    by (auto simp: add_item_input_def Let_def split: prod.splits bind_splits)
  from read_quantity_positive [OF q] read_price_not_negative [OF p]
  show ?thesis by simp
qed

lemma add_item_run:
  "add_item_input rt c = Some (n, q, p, c') \<Longrightarrow>
   add_item rt (c, this) = Some (add_item_store n q p (c', this))"
  by (simp add: add_item_def)

lemma add_item_Some:
  assumes "add_item rt (c, this) = Some r"
  shows "\<exists>n q p c'. add_item_input rt c = Some (n, q, p, c') \<and> r = add_item_store n q p (c', this)"
  using assms by (auto simp: add_item_def split: bind_splits)

lemma remove_item_run:
  "read_quantity rt (print EnterNumberToSell c) = Some (q, c') \<Longrightarrow>
   remove_item rt i (c, this) = Some (remove_item_sell rt i q (c', this))"
  by (simp add: remove_item_def)

lemma remove_item_Some:
  assumes "remove_item rt i (c, this) = Some r"
  shows "\<exists>q c'. read_quantity rt (print EnterNumberToSell c) = Some (q, c') \<and>
           r = remove_item_sell rt i q (c', this)"
  using assms by (auto simp: remove_item_def split: bind_splits)

lemma add_item_store_found:
  assumes "find_if (\<lambda>item. is_match item n) (items this) = i" "i < length (items this)"
  shows "add_item_store n q p (c, this) =
    (print (ItemExists n) c,
     this\<lparr>items := (items this)[i := (items this ! i)\<lparr>quantity := quantity (items this ! i) + q\<rparr>]\<rparr>)"
  using assms by (auto simp add: add_item_store_def Let_def set_quantity_def get_quantity_def)

lemma add_item_store_new:
  assumes "find_if (\<lambda>item. is_match item n) (items this) = length (items this)"
  shows "add_item_store n q p (c, this) =
    (print (NewItemAdded n) c, this\<lparr>items := items this @ [\<lparr>name = n, quantity = q, price = p\<rparr>]\<rparr>)"
  using assms by (simp add: add_item_store_def Let_def)

lemma remove_item_sell_all:
  assumes "i < length (items this)" "q = quantity (items this ! i)" "0 < sint q"
  shows "remove_item_sell rt i q (c, this) =
    (print (QuantityReachedZero (name (items this ! i)))
       (print (ItemsSold (float_times_int rt (price (items this ! i)) q)) c),
     \<lparr>items = erase i (items this),
      total_money = float_plus rt (total_money this) (float_times_int rt (price (items this ! i)) q)\<rparr>)"
  using assms
  by (simp add: remove_item_sell_def Let_def get_quantity_def set_quantity_def get_price_def
      get_name_def)

lemma remove_item_sell_some:
  assumes "i < length (items this)" "sint q < sint (quantity (items this ! i))"
  shows "remove_item_sell rt i q (c, this) =
    (print (ItemsSold (float_times_int rt (price (items this ! i)) q)) c,
     \<lparr>items = (items this)[i := (items this ! i)\<lparr>quantity := quantity (items this ! i) - q\<rparr>],
      total_money = float_plus rt (total_money this) (float_times_int rt (price (items this ! i)) q)\<rparr>)"
proof -
  from assms(2) have "quantity (items this ! i) \<noteq> q"
    by auto
  with assms show ?thesis
    by (simp add: remove_item_sell_def Let_def get_quantity_def set_quantity_def get_price_def)
qed

lemma remove_item_sell_refused:
  assumes "sint (quantity (items this ! i)) < sint q"
  shows "remove_item_sell rt i q (c, this) =
    (print (CannotSellMore (quantity (items this ! i))) c, this)"
  using assms by (simp add: remove_item_sell_def Let_def get_quantity_def)

lemma sell_item_Some:
  assumes "sell_item rt (c, this) = Some r"
  shows "snd r = this \<or>
         (\<exists>i q c1 c2. i < length (items this) \<and>
            read_quantity rt (print EnterNumberToSell c1) = Some (q, c2) \<and>
            r = remove_item_sell rt i q (c2, this))"
proof (cases "items this = []")
  case True
  with assms show ?thesis by (auto simp: sell_item_def)
next
  case False
  obtain t s where g: "getline rt (cin (print EnterNameToSell (c\<lparr>cin := ignore_line rt (cin c)\<rparr>))) = (t, s)"
    by (cases "getline rt (cin (print EnterNameToSell (c\<lparr>cin := ignore_line rt (cin c)\<rparr>)))")
  let ?i = "find_if (\<lambda>item. is_match item t) (items this)"
  show ?thesis
  proof (cases "?i = length (items this)")
    case True
    with assms False g show ?thesis by (auto simp: sell_item_def Let_def)
  next
    case neq: False
    with find_if_le [of "\<lambda>item. is_match item t" "items this"]
    have less: "?i < length (items this)" by simp
    from assms False g neq
    have "remove_item rt ?i ((print EnterNameToSell (c\<lparr>cin := ignore_line rt (cin c)\<rparr>))\<lparr>cin := s\<rparr>, this) = Some r"
      by (simp add: sell_item_def Let_def)
    from remove_item_Some [OF this] less show ?thesis by blast
  qed
qed

subsection \<open>Runs on scripted input\<close>

lemma scripted_simps:
  "extract_int scripted = scripted_extract"
  "extract_float scripted = (\<lambda>s. case scripted_extract s of (r, s') \<Rightarrow> (map_option sint r, s'))"
  "discard_line scripted s = drop 1 s"
  "ignore_line scripted s = drop 1 s"
  "getline scripted = scripted_getline"
  "float_negative scripted p = (p < 0)"
  "float_times_int scripted p n = p * sint n"
  "float_plus scripted a b = a + b"
  by (simp_all add: scripted_def discard_line_def)

lemma read_quantity_scripted:
  "read_quantity scripted \<lparr>cin = [[Num (- 3)], [Txt ''many''], [Num 6], [Num (- 1)], [Num 7]], cout = out\<rparr>
   = Some (6, \<lparr>cin = [[], [Num (- 1)], [Num 7]], cout = out @ [InvalidQuantity, InvalidQuantity]\<rparr>)"
  apply (subst read_quantity.simps, simp add: scripted_simps print_def)
  apply (subst read_quantity.simps, simp add: scripted_simps print_def)
  apply (subst read_quantity.simps, simp add: scripted_simps print_def)
  done

lemma read_price_scripted:
  "read_price scripted \<lparr>cin = [[], [Num (- 1)], [Num 7]], cout = out\<rparr>
   = Some (7, \<lparr>cin = [[]], cout = out @ [InvalidPrice]\<rparr>)"
  apply (subst read_price.simps, simp add: scripted_simps print_def)
  apply (subst read_price.simps, simp add: scripted_simps print_def)
  done

lemma add_item_input_scripted:
  "add_item_input scripted
     (keyboard [[], [Txt ''pear''], [Num (- 3)], [Txt ''many''], [Num 6], [Num (- 1)], [Num 7]])
   = Some (''pear'', 6, 7,
       \<lparr>cin = [[]],
        cout = [EnterItemName, EnterQuantity, InvalidQuantity, InvalidQuantity, EnterPrice, InvalidPrice]\<rparr>)"
  by (simp add: add_item_input_def keyboard_def scripted_simps print_def
      read_quantity_scripted read_price_scripted)

lemma add_item_input_scripted_new:
  "add_item_input scripted (keyboard [[], [Txt ''fig''], [Num 2], [Num 1]])
   = Some (''fig'', 2, 1, \<lparr>cin = [[]], cout = [EnterItemName, EnterQuantity, EnterPrice]\<rparr>)"
  apply (simp add: add_item_input_def keyboard_def scripted_simps print_def)
  apply (subst read_quantity.simps, simp add: scripted_simps print_def)
  apply (subst read_price.simps, simp add: scripted_simps print_def)
  done

lemma add_item_input_scripted_one:
  "add_item_input scripted (keyboard [[], [Txt ''pear''], [Num 1], [Num 7]])
   = Some (''pear'', 1, 7, \<lparr>cin = [[]], cout = [EnterItemName, EnterQuantity, EnterPrice]\<rparr>)"
  apply (simp add: add_item_input_def keyboard_def scripted_simps print_def)
  apply (subst read_quantity.simps, simp add: scripted_simps print_def)
  apply (subst read_price.simps, simp add: scripted_simps print_def)
  done

lemma read_quantity_scripted_sell_all:
  "read_quantity scripted (print EnterNumberToSell (keyboard [[Num 0], [Num 4]]))
   = Some (4, \<lparr>cin = [[]], cout = [EnterNumberToSell, InvalidQuantity]\<rparr>)"
  apply (subst read_quantity.simps, simp add: scripted_simps print_def keyboard_def)
  apply (subst read_quantity.simps, simp add: scripted_simps print_def)
  done

lemma read_quantity_scripted_sell_some:
  "read_quantity scripted (print EnterNumberToSell (keyboard [[Num 3]]))
   = Some (3, \<lparr>cin = [[]], cout = [EnterNumberToSell]\<rparr>)"
  by (subst read_quantity.simps, simp add: scripted_simps print_def keyboard_def)

subsection \<open>Adding an item\<close>

text \<open>
  C7, as stated, fails at the largest \<open>int\<close>: an entry holding 2147483647 pears, to
  which one pear is added, holds -2147483648 afterwards.
\<close>

theorem add_item_overflow_counterexample:
  "add_item scripted
     (keyboard [[], [Txt ''pear''], [Num 1], [Num 7]],
      \<lparr>items = [\<lparr>name = ''pear'', quantity = 2147483647, price = 5\<rparr>], total_money = 0\<rparr>)
   = Some (\<lparr>cin = [[]], cout = [EnterItemName, EnterQuantity, EnterPrice, ItemExists ''pear'']\<rparr>,
           \<lparr>items = [\<lparr>name = ''pear'', quantity = - 2147483648, price = 5\<rparr>], total_money = 0\<rparr>) \<and>
   sint (2147483647 :: cint) = 2147483647 \<and> sint (1 :: cint) = 1 \<and>
   sint (- 2147483648 :: cint) = - 2147483648"
  by (simp add: add_item_run [OF add_item_input_scripted_one] add_item_store_def is_match_def
      set_quantity_def get_quantity_def print_def)

text \<open>
  C7, amended. Let \<open>add_item\<close> have read the name \<open>n\<close>, the quantity \<open>q\<close> and the price
  \<open>p\<close>. When an entry of the inventory has the name \<open>n\<close>, the first such entry
  (position \<open>i\<close>) gets the 32-bit sum of its quantity and \<open>q\<close>, which is its quantity
  increased by exactly \<open>q\<close> whenever that does not exceed the largest \<open>int\<close>, and the
  list keeps its length: no entry is created. When no entry has the name \<open>n\<close>, an entry
  with \<open>n\<close>, \<open>q\<close> and \<open>p\<close> is appended.
\<close>

theorem add_item_merges_or_appends:
  assumes input: "add_item_input rt c = Some (n, q, p, c')"
    and i: "i = find_if (\<lambda>item. is_match item n) (items this)"
  shows "((\<exists>item\<in>set (items this). is_match item n) \<longrightarrow>
            i < length (items this) \<and> is_match (items this ! i) n \<and>
            (\<forall>j<i. \<not> is_match (items this ! j) n) \<and>
            add_item rt (c, this) =
              Some (print (ItemExists n) c',
                    this\<lparr>items := (items this)[i :=
                      (items this ! i)\<lparr>quantity := quantity (items this ! i) + q\<rparr>]\<rparr>) \<and>
            length ((items this)[i := (items this ! i)\<lparr>quantity := quantity (items this ! i) + q\<rparr>])
              = length (items this) \<and>
            (sint (quantity (items this ! i)) + sint q < 2 ^ 31 \<longrightarrow>
               sint (quantity (items this ! i) + q) = sint (quantity (items this ! i)) + sint q)) \<and>
         ((\<forall>item\<in>set (items this). \<not> is_match item n) \<longrightarrow>
            add_item rt (c, this) =
              Some (print (NewItemAdded n) c',
                    this\<lparr>items := items this @ [\<lparr>name = n, quantity = q, price = p\<rparr>]\<rparr>))"
proof (intro conjI impI)
  assume ex: "\<exists>item\<in>set (items this). is_match item n"
  then show less: "i < length (items this)"
    by (simp add: i find_if_less_iff)
  then show "is_match (items this ! i) n"
    unfolding i by (rule find_if_hit)
  show "\<forall>j<i. \<not> is_match (items this ! j) n"
    unfolding i using find_if_first [of _ "\<lambda>item. is_match item n" "items this"] by blast
  show "add_item rt (c, this) =
      Some (print (ItemExists n) c',
            this\<lparr>items := (items this)[i := (items this ! i)\<lparr>quantity := quantity (items this ! i) + q\<rparr>]\<rparr>)"
    using add_item_run [OF input] add_item_store_found [OF i [symmetric] less] by simp
  show "length ((items this)[i := (items this ! i)\<lparr>quantity := quantity (items this ! i) + q\<rparr>])
      = length (items this)"
    by simp
next
  assume "\<exists>item\<in>set (items this). is_match item n"
    and "sint (quantity (items this ! i)) + sint q < 2 ^ 31"
  moreover have "0 < sint q"
    using add_item_input_valid [OF input] by simp
  moreover have "- (2 ^ 31) \<le> sint (quantity (items this ! i))"
    by (rule sint_cint_bounds)
  ultimately show "sint (quantity (items this ! i) + q) = sint (quantity (items this ! i)) + sint q"
    by (intro sint_add_exact) simp_all
next
  assume "\<forall>item\<in>set (items this). \<not> is_match item n"
  then have "find_if (\<lambda>item. is_match item n) (items this) = length (items this)"
    by (simp add: find_if_end_iff)
  with add_item_run [OF input] add_item_store_new
  show "add_item rt (c, this) =
      Some (print (NewItemAdded n) c',
            this\<lparr>items := items this @ [\<lparr>name = n, quantity = q, price = p\<rparr>]\<rparr>)"
    by simp
qed

theorem add_item_merges_or_appends_witness:
  "add_item scripted
     (keyboard [[], [Txt ''pear''], [Num (- 3)], [Txt ''many''], [Num 6], [Num (- 1)], [Num 7]], stock)
   = Some (\<lparr>cin = [[]],
            cout = [EnterItemName, EnterQuantity, InvalidQuantity, InvalidQuantity, EnterPrice,
                    InvalidPrice, ItemExists ''pear'']\<rparr>,
           \<lparr>items = [\<lparr>name = ''apple'', quantity = 10, price = 3\<rparr>,
                     \<lparr>name = ''pear'', quantity = 10, price = 5\<rparr>],
            total_money = 0\<rparr>) \<and>
   add_item scripted (keyboard [[], [Txt ''fig''], [Num 2], [Num 1]], stock)
   = Some (\<lparr>cin = [[]], cout = [EnterItemName, EnterQuantity, EnterPrice, NewItemAdded ''fig'']\<rparr>,
           \<lparr>items = [\<lparr>name = ''apple'', quantity = 10, price = 3\<rparr>,
                     \<lparr>name = ''pear'', quantity = 4, price = 5\<rparr>,
                     \<lparr>name = ''fig'', quantity = 2, price = 1\<rparr>],
            total_money = 0\<rparr>)"
  using add_item_merges_or_appends [OF add_item_input_scripted, of 1 stock]
    add_item_merges_or_appends [OF add_item_input_scripted_new, of 2 stock]
  by (simp add: stock_def is_match_def print_def)

text \<open>
  C10. When \<open>add_item\<close> merges into the entry at position \<open>i\<close>, that entry keeps its
  price and its name, every other entry and \<open>total_money\<close> are unchanged, and the price
  that was entered is dropped without a word: the outcome, output included, is the same
  for every entered price, and the only message is that the item exists.
\<close>

theorem add_item_merge_frame:
  assumes input: "add_item_input rt c = Some (n, q, p, c')"
    and i: "i = find_if (\<lambda>item. is_match item n) (items this)"
    and found: "i < length (items this)"
  shows "\<exists>c'' this'.
           add_item rt (c, this) = Some (c'', this') \<and>
           price (items this' ! i) = price (items this ! i) \<and>
           name (items this' ! i) = name (items this ! i) \<and>
           length (items this') = length (items this) \<and>
           (\<forall>j<length (items this). j \<noteq> i \<longrightarrow> items this' ! j = items this ! j) \<and>
           total_money this' = total_money this \<and>
           cout c'' = cout c' @ [ItemExists n] \<and>
           (\<forall>p'. add_item_store n q p' (c', this) = (c'', this'))"
proof -
  let ?this' = "this\<lparr>items := (items this)[i :=
                  (items this ! i)\<lparr>quantity := quantity (items this ! i) + q\<rparr>]\<rparr>"
  have store: "add_item_store n q p' (c', this) = (print (ItemExists n) c', ?this')" for p'
    by (rule add_item_store_found [OF i [symmetric] found])
  have "add_item rt (c, this) = Some (print (ItemExists n) c', ?this')"
    using add_item_run [OF input] store by simp
  moreover have "price (items ?this' ! i) = price (items this ! i)"
    and "name (items ?this' ! i) = name (items this ! i)"
    using found by simp_all
  moreover have "length (items ?this') = length (items this)"
    by simp
  moreover have "\<forall>j<length (items this). j \<noteq> i \<longrightarrow> items ?this' ! j = items this ! j"
    by simp
  moreover have "total_money ?this' = total_money this"
    by simp
  moreover have "cout (print (ItemExists n) c') = cout c' @ [ItemExists n]"
    by (simp add: print_def)
  ultimately show ?thesis
    using store by blast
qed

theorem add_item_merge_frame_witness:
  "\<exists>c'' this'.
     add_item scripted
       (keyboard [[], [Txt ''pear''], [Num (- 3)], [Txt ''many''], [Num 6], [Num (- 1)], [Num 7]], stock)
       = Some (c'', this') \<and>
     price (items this' ! 1) = 5 \<and> name (items this' ! 1) = ''pear'' \<and>
     length (items this') = 2 \<and> items this' ! 0 = items stock ! 0 \<and>
     total_money this' = 0"
proof -
  have "1 = find_if (\<lambda>item. is_match item ''pear'') (items stock)" "1 < length (items stock)"
    by (simp_all add: stock_def is_match_def)
  from add_item_merge_frame [OF add_item_input_scripted this]
  obtain c'' this' where
    "add_item scripted
       (keyboard [[], [Txt ''pear''], [Num (- 3)], [Txt ''many''], [Num 6], [Num (- 1)], [Num 7]], stock)
       = Some (c'', this')"
    "price (items this' ! 1) = price (items stock ! 1)"
    "name (items this' ! 1) = name (items stock ! 1)"
    "length (items this') = length (items stock)"
    "\<forall>j<length (items stock). j \<noteq> 1 \<longrightarrow> items this' ! j = items stock ! j"
    "total_money this' = total_money stock"
    by blast
  then show ?thesis
    by (intro exI [of _ c''] exI [of _ this']) (simp add: stock_def)
qed

subsection \<open>Selling an item\<close>

text \<open>
  C8. Let the prompt of \<open>remove_item\<close> have accepted the quantity \<open>q\<close> for the entry at
  position \<open>i\<close>. When \<open>q\<close> equals the entry's quantity, the entry is erased: the list is
  one shorter, the entries before it stay, the entries after it move up, and, names being
  distinct, no entry of that name remains. When \<open>q\<close> is smaller than the entry's
  quantity, the entry stays in place with its quantity decreased by \<open>q\<close>, which is still
  positive. In both cases \<open>total_money\<close> grows by the price times \<open>q\<close>.
\<close>

theorem remove_item_sale:
  assumes prompt: "read_quantity rt (print EnterNumberToSell c) = Some (q, c')"
    and valid: "i < length (items this)"
    and money: "m = float_times_int rt (price (items this ! i)) q"
  shows "(q = quantity (items this ! i) \<longrightarrow>
            remove_item rt i (c, this) =
              Some (print (QuantityReachedZero (name (items this ! i))) (print (ItemsSold m) c'),
                    \<lparr>items = erase i (items this),
                     total_money = float_plus rt (total_money this) m\<rparr>) \<and>
            length (erase i (items this)) = length (items this) - 1 \<and>
            (\<forall>j<i. erase i (items this) ! j = items this ! j) \<and>
            (\<forall>j. i \<le> j \<and> Suc j < length (items this) \<longrightarrow>
               erase i (items this) ! j = items this ! Suc j) \<and>
            (distinct (map name (items this)) \<longrightarrow>
               (\<forall>item\<in>set (erase i (items this)). \<not> is_match item (name (items this ! i))))) \<and>
         (sint q < sint (quantity (items this ! i)) \<longrightarrow>
            remove_item rt i (c, this) =
              Some (print (ItemsSold m) c',
                    \<lparr>items = (items this)[i :=
                       (items this ! i)\<lparr>quantity := quantity (items this ! i) - q\<rparr>],
                     total_money = float_plus rt (total_money this) m\<rparr>) \<and>
            sint (quantity (items this ! i) - q) = sint (quantity (items this ! i)) - sint q \<and>
            0 < sint (quantity (items this ! i) - q))"
proof -
  have pos: "0 < sint q"
    using read_quantity_positive [OF prompt] .
  have run: "remove_item rt i (c, this) = Some (remove_item_sell rt i q (c', this))"
    using remove_item_run [OF prompt] .
  have all: "remove_item rt i (c, this) =
      Some (print (QuantityReachedZero (name (items this ! i))) (print (ItemsSold m) c'),
            \<lparr>items = erase i (items this), total_money = float_plus rt (total_money this) m\<rparr>)"
    if "q = quantity (items this ! i)"
    using run remove_item_sell_all [OF valid that pos] money by simp
  have gone: "\<forall>item\<in>set (erase i (items this)). \<not> is_match item (name (items this ! i))"
    if "distinct (map name (items this))"
    using erase_distinct [OF that valid] by (force simp: is_match_def image_iff)
  have some: "remove_item rt i (c, this) =
      Some (print (ItemsSold m) c',
            \<lparr>items = (items this)[i := (items this ! i)\<lparr>quantity := quantity (items this ! i) - q\<rparr>],
             total_money = float_plus rt (total_money this) m\<rparr>)"
    if "sint q < sint (quantity (items this ! i))"
    using run remove_item_sell_some [OF valid that] money by simp
  have diff: "sint (quantity (items this ! i) - q) = sint (quantity (items this ! i)) - sint q"
    if "sint q < sint (quantity (items this ! i))"
    using that pos sint_cint_bounds [of "quantity (items this ! i)"]
    by (intro sint_sub_exact) simp_all
  show ?thesis
    using all gone some diff valid
    by (simp add: length_erase erase_nth_before erase_nth_after)
qed

theorem remove_item_sale_witness:
  "remove_item scripted 1 (keyboard [[Num 0], [Num 4]], stock)
   = Some (\<lparr>cin = [[]],
            cout = [EnterNumberToSell, InvalidQuantity, ItemsSold 20, QuantityReachedZero ''pear'']\<rparr>,
           \<lparr>items = [\<lparr>name = ''apple'', quantity = 10, price = 3\<rparr>], total_money = 20\<rparr>) \<and>
   remove_item scripted 0 (keyboard [[Num 3]], stock)
   = Some (\<lparr>cin = [[]], cout = [EnterNumberToSell, ItemsSold 9]\<rparr>,
           \<lparr>items = [\<lparr>name = ''apple'', quantity = 7, price = 3\<rparr>,
                     \<lparr>name = ''pear'', quantity = 4, price = 5\<rparr>],
            total_money = 9\<rparr>)"
  using remove_item_sale [OF read_quantity_scripted_sell_all, of 1 stock 20]
    remove_item_sale [OF read_quantity_scripted_sell_some, of 0 stock 9]
  by (simp add: stock_def scripted_simps erase_def print_def)

subsection \<open>What the prompts accept\<close>

text \<open>
  C9. A quantity that leaves the quantity prompt is strictly positive, and a price that
  leaves the price prompt is not below zero. The inventory that \<open>add_item\<close>,
  \<open>remove_item\<close> and \<open>sell_item\<close> return is built from such values only. A failed
  extraction, a quantity of at most zero and a price below zero each send the loop
  around again, after the complaint and with the rest of the line discarded; a positive
  quantity and a price not below zero leave the loop at once.
\<close>

theorem prompts_accept_only_valid:
  "(read_quantity rt c = Some (q, cq) \<longrightarrow> 0 < sint q) \<and>
   (read_price rt c = Some (p, cp) \<longrightarrow> \<not> float_negative rt p) \<and>
   (add_item rt (c, this) = Some r \<longrightarrow>
      (\<exists>n q p c'. 0 < sint q \<and> \<not> float_negative rt p \<and>
         add_item_input rt c = Some (n, q, p, c') \<and> r = add_item_store n q p (c', this))) \<and>
   (remove_item rt i (c, this) = Some r \<longrightarrow>
      (\<exists>q c'. 0 < sint q \<and> read_quantity rt (print EnterNumberToSell c) = Some (q, c') \<and>
         r = remove_item_sell rt i q (c', this))) \<and>
   (sell_item rt (c, this) = Some r \<longrightarrow>
      snd r = this \<or>
      (\<exists>i q c'. 0 < sint q \<and> i < length (items this) \<and> r = remove_item_sell rt i q (c', this))) \<and>
   (extract_int rt (cin c) = (v, s) \<and> (case v of None \<Rightarrow> True | Some k \<Rightarrow> sint k \<le> 0) \<longrightarrow>
      read_quantity rt c = read_quantity rt (print InvalidQuantity (c\<lparr>cin := discard_line rt s\<rparr>))) \<and>
   (extract_float rt (cin c) = (u, s') \<and> (case u of None \<Rightarrow> True | Some x \<Rightarrow> float_negative rt x) \<longrightarrow>
      read_price rt c = read_price rt (print InvalidPrice (c\<lparr>cin := discard_line rt s'\<rparr>))) \<and>
   (extract_int rt (cin c) = (Some k, s) \<and> 0 < sint k \<longrightarrow>
      read_quantity rt c = Some (k, c\<lparr>cin := s\<rparr>)) \<and>
   (extract_float rt (cin c) = (Some x, s') \<and> \<not> float_negative rt x \<longrightarrow>
      read_price rt c = Some (x, c\<lparr>cin := s'\<rparr>))"
proof (intro conjI impI)
  assume "read_quantity rt c = Some (q, cq)"
  then show "0 < sint q" by (rule read_quantity_positive)
next
  assume "read_price rt c = Some (p, cp)"
  then show "\<not> float_negative rt p" by (rule read_price_not_negative)
next
  assume "add_item rt (c, this) = Some r"
  from add_item_Some [OF this] obtain n q p c' where
    *: "add_item_input rt c = Some (n, q, p, c')" "r = add_item_store n q p (c', this)"
    by blast
  with add_item_input_valid [OF *(1)]
  show "\<exists>n q p c'. 0 < sint q \<and> \<not> float_negative rt p \<and>
         add_item_input rt c = Some (n, q, p, c') \<and> r = add_item_store n q p (c', this)"
    by blast
next
  assume "remove_item rt i (c, this) = Some r"
  from remove_item_Some [OF this] obtain q c' where
    *: "read_quantity rt (print EnterNumberToSell c) = Some (q, c')"
       "r = remove_item_sell rt i q (c', this)"
    by blast
  with read_quantity_positive [OF *(1)]
  show "\<exists>q c'. 0 < sint q \<and> read_quantity rt (print EnterNumberToSell c) = Some (q, c') \<and>
         r = remove_item_sell rt i q (c', this)"
    by blast
next
  assume "sell_item rt (c, this) = Some r"
  from sell_item_Some [OF this] read_quantity_positive
  show "snd r = this \<or>
      (\<exists>i q c'. 0 < sint q \<and> i < length (items this) \<and> r = remove_item_sell rt i q (c', this))"
    by blast
next
  assume "extract_int rt (cin c) = (v, s) \<and> (case v of None \<Rightarrow> True | Some k \<Rightarrow> sint k \<le> 0)"
  then show "read_quantity rt c = read_quantity rt (print InvalidQuantity (c\<lparr>cin := discard_line rt s\<rparr>))"
    by (subst read_quantity.simps) (auto split: option.splits)
next
  assume "extract_float rt (cin c) = (u, s') \<and> (case u of None \<Rightarrow> True | Some x \<Rightarrow> float_negative rt x)"
  then show "read_price rt c = read_price rt (print InvalidPrice (c\<lparr>cin := discard_line rt s'\<rparr>))"
    by (subst read_price.simps) (auto split: option.splits)
next
  assume "extract_int rt (cin c) = (Some k, s) \<and> 0 < sint k"
  then show "read_quantity rt c = Some (k, c\<lparr>cin := s\<rparr>)"
    by (subst read_quantity.simps) simp
next
  assume "extract_float rt (cin c) = (Some x, s') \<and> \<not> float_negative rt x"
  then show "read_price rt c = Some (x, c\<lparr>cin := s'\<rparr>)"
    by (subst read_price.simps) simp
qed

theorem prompts_accept_only_valid_witness:
  "read_quantity scripted \<lparr>cin = [[Num (- 3)], [Txt ''many''], [Num 6], [Num (- 1)], [Num 7]], cout = []\<rparr>
     = Some (6, \<lparr>cin = [[], [Num (- 1)], [Num 7]], cout = [InvalidQuantity, InvalidQuantity]\<rparr>) \<and>
   0 < sint (6 :: cint) \<and>
   read_price scripted \<lparr>cin = [[], [Num (- 1)], [Num 7]], cout = []\<rparr>
     = Some (7, \<lparr>cin = [[]], cout = [InvalidPrice]\<rparr>) \<and>
   \<not> float_negative scripted 7 \<and>
   read_quantity scripted \<lparr>cin = [[Num (- 3)], [Txt ''many''], [Num 6], [Num (- 1)], [Num 7]], cout = []\<rparr>
     = read_quantity scripted \<lparr>cin = [[Txt ''many''], [Num 6], [Num (- 1)], [Num 7]], cout = [InvalidQuantity]\<rparr>"
  using prompts_accept_only_valid
      [where rt = scripted and q = 6 and v = "Some (- 3)"
        and c = "\<lparr>cin = [[Num (- 3)], [Txt ''many''], [Num 6], [Num (- 1)], [Num 7]], cout = []\<rparr>"
        and cq = "\<lparr>cin = [[], [Num (- 1)], [Num 7]], cout = [InvalidQuantity, InvalidQuantity]\<rparr>"
        and s = "[[], [Txt ''many''], [Num 6], [Num (- 1)], [Num 7]]"]
    prompts_accept_only_valid
      [where rt = scripted and p = 7
        and c = "\<lparr>cin = [[], [Num (- 1)], [Num 7]], cout = []\<rparr>"
        and cp = "\<lparr>cin = [[]], cout = [InvalidPrice]\<rparr>"]
    read_quantity_scripted [of "[]"] read_price_scripted [of "[]"]
  by (simp add: scripted_simps print_def)

end
